theory Spec2Isabelle
  imports Main
begin

section \<open>Bestiary UI: the Apollo mutation wrappers\<close>

text \<open>
  A shallow embedding of \<^verbatim>\<open>ui/src/apollo/mutations.js\<close> and of the second copy of
  its project part (\<^verbatim>\<open>unnamed/part_000\<close>). The module holds eight GraphQL documents,
  built by the \<^verbatim>\<open>gql\<close> template tag, and eight arrow functions that hand one of the
  documents and an object of variables to \<^verbatim>\<open>apollo.mutate\<close> and return what it returns.
\<close>

subsection \<open>JavaScript values and property reads\<close>

text \<open>
  The values the wrappers are handed: the primitives and plain objects, an object being
  the list of its own data properties in insertion order (plain data: no accessors, no
  proxies). The wrappers never compute with a number, so an integer stands for it.
\<close>

datatype jsval =
    Undefined
  | Null
  | Bool bool
  | Num int
  | Str string
  | Obj "(string \<times> jsval) list"

text \<open>
  What the evaluation of a wrapper can raise: the \<^verbatim>\<open>TypeError\<close> of the runtime, or
  whatever value the client's \<^verbatim>\<open>mutate\<close> throws.
\<close>

datatype error = TypeError | Thrown jsval

fun nullish :: "jsval \<Rightarrow> bool" where
  "nullish Undefined = True"
| "nullish Null = True"
| "nullish (Bool b) = False"
| "nullish (Num n) = False"
| "nullish (Str s) = False"
| "nullish (Obj ps) = False"

text \<open>
  The value of \<^verbatim>\<open>v.k\<close> for a base \<open>v\<close> that can be read: an own property of an object,
  and \<^verbatim>\<open>undefined\<close> for a property the object does not have. The wrappers read
  \<^verbatim>\<open>ecosystemId\<close>, \<^verbatim>\<open>name\<close>, \<^verbatim>\<open>title\<close>, \<^verbatim>\<open>parentId\<close> and \<^verbatim>\<open>description\<close> only,
  none of which the prototypes of Object, String, Number or Boolean define, so a
  primitive base reads as \<^verbatim>\<open>undefined\<close> at each of them.
\<close>

fun member_of :: "jsval \<Rightarrow> string \<Rightarrow> jsval" where
  "member_of (Obj ps) k = (case map_of ps k of None \<Rightarrow> Undefined | Some v \<Rightarrow> v)"
| "member_of Undefined k = Undefined"
| "member_of Null k = Undefined"
| "member_of (Bool b) k = Undefined"
| "member_of (Num n) k = Undefined"
| "member_of (Str s) k = Undefined"

text \<open>
  The property read \<^verbatim>\<open>v.k\<close> itself: reading a property of \<^verbatim>\<open>undefined\<close> or of
  \<^verbatim>\<open>null\<close> raises a \<^verbatim>\<open>TypeError\<close>.
\<close>

definition get_prop :: "jsval \<Rightarrow> string \<Rightarrow> error + jsval" where
  "get_prop v k = (if nullish v then Inl TypeError else Inr (member_of v k))"

subsection \<open>GraphQL documents\<close>

text \<open>
  The syntax tree \<^verbatim>\<open>gql\<close> builds from a template: one operation of kind
  \<^verbatim>\<open>mutation\<close> with its name, its variable definitions (a type followed by \<^verbatim>\<open>!\<close> is
  non-null) and its selection set. An argument of a field pairs the argument's name
  with the name of the variable it is bound to.
\<close>

datatype gql_type = NamedType string | NonNullType gql_type

datatype selection = Field string "(string \<times> string) list" "selection list"

record document =
  operation :: string
  opName :: string
  variableDefinitions :: "(string \<times> gql_type) list"
  selectionSet :: "selection list"

definition ADD_PROJECT :: document where
  "ADD_PROJECT = \<lparr>
     operation = ''mutation'',
     opName = ''addProject'',
     variableDefinitions =
       [(''ecosystemId'', NamedType ''ID''),
        (''name'', NamedType ''String''),
        (''title'', NamedType ''String''),
        (''parentId'', NamedType ''ID'')],
     selectionSet =
       [Field ''addProject''
          [(''ecosystemId'', ''ecosystemId''),
           (''name'', ''name''),
           (''title'', ''title''),
           (''parentId'', ''parentId'')]
          [Field ''project'' [] [Field ''id'' [] [], Field ''name'' [] []]]] \<rparr>"

definition DELETE_PROJECT :: document where
  "DELETE_PROJECT = \<lparr>
     operation = ''mutation'',
     opName = ''deleteProject'',
     variableDefinitions = [(''id'', NamedType ''ID'')],
     selectionSet =
       [Field ''deleteProject'' [(''id'', ''id'')]
          [Field ''project'' [] [Field ''id'' [] []]]] \<rparr>"

definition MOVE_PROJECT :: document where
  "MOVE_PROJECT = \<lparr>
     operation = ''mutation'',
     opName = ''moveProject'',
     variableDefinitions =
       [(''fromProjectId'', NamedType ''ID''), (''toProjectId'', NamedType ''ID'')],
     selectionSet =
       [Field ''moveProject''
          [(''fromProjectId'', ''fromProjectId''), (''toProjectId'', ''toProjectId'')]
          [Field ''project'' [] [Field ''id'' [] [], Field ''name'' [] []]]] \<rparr>"

definition UPDATE_PROJECT :: document where
  "UPDATE_PROJECT = \<lparr>
     operation = ''mutation'',
     opName = ''updateProject'',
     variableDefinitions =
       [(''data'', NamedType ''ProjectInputType''), (''id'', NamedType ''ID'')],
     selectionSet =
       [Field ''updateProject'' [(''data'', ''data''), (''id'', ''id'')]
          [Field ''project'' [] [Field ''id'' [] [], Field ''name'' [] []]]] \<rparr>"

definition ADD_ECOSYSTEM :: document where
  "ADD_ECOSYSTEM = \<lparr>
     operation = ''mutation'',
     opName = ''addEcosystem'',
     variableDefinitions =
       [(''name'', NonNullType (NamedType ''String'')),
        (''title'', NamedType ''String''),
        (''description'', NamedType ''String'')],
     selectionSet =
       [Field ''addEcosystem''
          [(''name'', ''name''), (''title'', ''title''), (''description'', ''description'')]
          [Field ''ecosystem'' [] [Field ''id'' [] []]]] \<rparr>"

definition UPDATE_ECOSYSTEM :: document where
  "UPDATE_ECOSYSTEM = \<lparr>
     operation = ''mutation'',
     opName = ''updateEcosystem'',
     variableDefinitions =
       [(''data'', NamedType ''EcosystemInputType''), (''id'', NamedType ''ID'')],
     selectionSet =
       [Field ''updateEcosystem'' [(''data'', ''data''), (''id'', ''id'')]
          [Field ''ecosystem'' [] [Field ''id'' [] []]]] \<rparr>"

definition DELETE_ECOSYSTEM :: document where
  "DELETE_ECOSYSTEM = \<lparr>
     operation = ''mutation'',
     opName = ''deleteEcosystem'',
     variableDefinitions = [(''id'', NonNullType (NamedType ''ID''))],
     selectionSet =
       [Field ''deleteEcosystem'' [(''id'', ''id'')]
          [Field ''ecosystem'' [] [Field ''id'' [] []]]] \<rparr>"

definition TOKEN_AUTH :: document where
  "TOKEN_AUTH = \<lparr>
     operation = ''mutation'',
     opName = ''tokenAuth'',
     variableDefinitions =
       [(''username'', NonNullType (NamedType ''String'')),
        (''password'', NonNullType (NamedType ''String''))],
     selectionSet =
       [Field ''tokenAuth'' [(''username'', ''username''), (''password'', ''password'')]
          [Field ''token'' [] []]] \<rparr>"

subsection \<open>Reading a document\<close>

fun is_required :: "gql_type \<Rightarrow> bool" where
  "is_required (NonNullType t) = True"
| "is_required (NamedType n) = False"

definition required_variables :: "document \<Rightarrow> string list" where
  "required_variables doc =
     map fst (filter (\<lambda>d. is_required (snd d)) (variableDefinitions doc))"

fun field_name :: "selection \<Rightarrow> string" where
  "field_name (Field f args sub) = f"

fun field_arguments :: "selection \<Rightarrow> (string \<times> string) list" where
  "field_arguments (Field f args sub) = args"

fun subselection :: "selection \<Rightarrow> selection list" where
  "subselection (Field f args sub) = sub"

text \<open>
  The signature of a document in the shape of the interface list: the names of the root
  fields, the variables with a flag for the non-null ones, and what is selected below
  the root fields.
\<close>

definition signature_of ::
  "document \<Rightarrow> string list \<times> (string \<times> bool) list \<times> selection list" where
  "signature_of doc =
     (map field_name (selectionSet doc),
      map (\<lambda>d. (fst d, is_required (snd d))) (variableDefinitions doc),
      concat (map subselection (selectionSet doc)))"

text \<open>
  The interface list as the specification writes it (name, variables, returned fields; a
  variable written with \<^verbatim>\<open>!\<close> carries \<open>True\<close>). This definition follows the
  specification's words, to be compared with the documents of the source.
\<close>

definition spec_interface ::
  "(string list \<times> (string \<times> bool) list \<times> selection list) list" where
  "spec_interface =
     [([''addProject''],
       [(''ecosystemId'', False), (''name'', False), (''title'', False), (''parentId'', False)],
       [Field ''project'' [] [Field ''id'' [] [], Field ''name'' [] []]]),
      ([''deleteProject''],
       [(''id'', False)],
       [Field ''project'' [] [Field ''id'' [] []]]),
      ([''moveProject''],
       [(''fromProjectId'', False), (''toProjectId'', False)],
       [Field ''project'' [] [Field ''id'' [] [], Field ''name'' [] []]]),
      ([''updateProject''],
       [(''data'', False), (''id'', False)],
       [Field ''project'' [] [Field ''id'' [] [], Field ''name'' [] []]]),
      ([''addEcosystem''],
       [(''name'', True), (''title'', False), (''description'', False)],
       [Field ''ecosystem'' [] [Field ''id'' [] []]]),
      ([''updateEcosystem''],
       [(''data'', False), (''id'', False)],
       [Field ''ecosystem'' [] [Field ''id'' [] []]]),
      ([''deleteEcosystem''],
       [(''id'', True)],
       [Field ''ecosystem'' [] [Field ''id'' [] []]]),
      ([''tokenAuth''],
       [(''username'', True), (''password'', True)],
       [Field ''token'' [] []])]"

subsection \<open>The client and the wrappers\<close>

text \<open>
  The argument of \<^verbatim>\<open>apollo.mutate\<close>: the object literal with the two properties
  \<^verbatim>\<open>mutation\<close> and \<^verbatim>\<open>variables\<close>. The variables are an object literal too; a property
  whose value is \<^verbatim>\<open>undefined\<close> is still a property of it.
\<close>

record request =
  mutation :: document
  variables :: "(string \<times> jsval) list"

text \<open>
  The client is a parameter. Its \<^verbatim>\<open>mutate\<close> takes the request and the state of the
  world \<open>'w\<close> (the network, the backend, the client's cache, every object of the heap)
  and gives the state it leaves together with either the value it returns, of a type
  \<open>'p\<close> the wrappers never look into (the pending result), or the error it throws.
  The handle itself is taken to be an object with a callable \<^verbatim>\<open>mutate\<close>.

  A wrapper evaluates the object literal it passes before the call: the property reads
  of \<^verbatim>\<open>data\<close> come first, in the order of the source, and the first one that raises
  ends the wrapper with that error and without a call.
\<close>

type_synonym ('w, 'p) client = "request \<Rightarrow> 'w \<Rightarrow> (error + 'p) \<times> 'w"

definition addProject :: "('w, 'p) client \<Rightarrow> jsval \<Rightarrow> 'w \<Rightarrow> (error + 'p) \<times> 'w" where
  "addProject apollo data w =
     (case get_prop data ''ecosystemId'' of Inl e \<Rightarrow> (Inl e, w) | Inr ecosystemId \<Rightarrow>
      (case get_prop data ''name'' of Inl e \<Rightarrow> (Inl e, w) | Inr name \<Rightarrow>
       (case get_prop data ''title'' of Inl e \<Rightarrow> (Inl e, w) | Inr title \<Rightarrow>
        (case get_prop data ''parentId'' of Inl e \<Rightarrow> (Inl e, w) | Inr parentId \<Rightarrow>
           apollo \<lparr> mutation = ADD_PROJECT,
                    variables = [(''ecosystemId'', ecosystemId), (''name'', name),
                                 (''title'', title), (''parentId'', parentId)] \<rparr> w))))"

definition deleteProject :: "('w, 'p) client \<Rightarrow> jsval \<Rightarrow> 'w \<Rightarrow> (error + 'p) \<times> 'w" where
  "deleteProject apollo ident w =
     apollo \<lparr> mutation = DELETE_PROJECT, variables = [(''id'', ident)] \<rparr> w"

definition moveProject ::
  "('w, 'p) client \<Rightarrow> jsval \<Rightarrow> jsval \<Rightarrow> 'w \<Rightarrow> (error + 'p) \<times> 'w" where
  "moveProject apollo fromProjectId toProjectId w =
     apollo \<lparr> mutation = MOVE_PROJECT,
              variables = [(''fromProjectId'', fromProjectId),
                           (''toProjectId'', toProjectId)] \<rparr> w"

definition updateProject ::
  "('w, 'p) client \<Rightarrow> jsval \<Rightarrow> jsval \<Rightarrow> 'w \<Rightarrow> (error + 'p) \<times> 'w" where
  "updateProject apollo data ident w =
     apollo \<lparr> mutation = UPDATE_PROJECT,
              variables = [(''data'', data), (''id'', ident)] \<rparr> w"

definition addEcosystem :: "('w, 'p) client \<Rightarrow> jsval \<Rightarrow> 'w \<Rightarrow> (error + 'p) \<times> 'w" where
  "addEcosystem apollo data w =
     (case get_prop data ''name'' of Inl e \<Rightarrow> (Inl e, w) | Inr name \<Rightarrow>
      (case get_prop data ''title'' of Inl e \<Rightarrow> (Inl e, w) | Inr title \<Rightarrow>
       (case get_prop data ''description'' of Inl e \<Rightarrow> (Inl e, w) | Inr description \<Rightarrow>
          apollo \<lparr> mutation = ADD_ECOSYSTEM,
                   variables = [(''name'', name), (''title'', title),
                                (''description'', description)] \<rparr> w)))"

definition updateEcosystem ::
  "('w, 'p) client \<Rightarrow> jsval \<Rightarrow> jsval \<Rightarrow> 'w \<Rightarrow> (error + 'p) \<times> 'w" where
  "updateEcosystem apollo data ident w =
     apollo \<lparr> mutation = UPDATE_ECOSYSTEM,
              variables = [(''data'', data), (''id'', ident)] \<rparr> w"

definition deleteEcosystem :: "('w, 'p) client \<Rightarrow> jsval \<Rightarrow> 'w \<Rightarrow> (error + 'p) \<times> 'w" where
  "deleteEcosystem apollo ident w =
     apollo \<lparr> mutation = DELETE_ECOSYSTEM, variables = [(''id'', ident)] \<rparr> w"

definition tokenAuth ::
  "('w, 'p) client \<Rightarrow> jsval \<Rightarrow> jsval \<Rightarrow> 'w \<Rightarrow> (error + 'p) \<times> 'w" where
  "tokenAuth apollo username password w =
     apollo \<lparr> mutation = TOKEN_AUTH,
              variables = [(''username'', username), (''password'', password)] \<rparr> w"

subsection \<open>The project wrappers of the second module\<close>

text \<open>
  \<^verbatim>\<open>unnamed/part_000\<close> is a module of its own with the four project documents and the
  four project wrappers, exported under the same names; here they carry the prefix
  \<open>part0\<close>.
\<close>

definition part0_ADD_PROJECT :: document where
  "part0_ADD_PROJECT = \<lparr>
     operation = ''mutation'',
     opName = ''addProject'',
     variableDefinitions =
       [(''ecosystemId'', NamedType ''ID''),
        (''name'', NamedType ''String''),
        (''title'', NamedType ''String''),
        (''parentId'', NamedType ''ID'')],
     selectionSet =
       [Field ''addProject''
          [(''ecosystemId'', ''ecosystemId''),
           (''name'', ''name''),
           (''title'', ''title''),
           (''parentId'', ''parentId'')]
          [Field ''project'' [] [Field ''id'' [] [], Field ''name'' [] []]]] \<rparr>"

definition part0_DELETE_PROJECT :: document where
  "part0_DELETE_PROJECT = \<lparr>
     operation = ''mutation'',
     opName = ''deleteProject'',
     variableDefinitions = [(''id'', NamedType ''ID'')],
     selectionSet =
       [Field ''deleteProject'' [(''id'', ''id'')]
          [Field ''project'' [] [Field ''id'' [] []]]] \<rparr>"

definition part0_MOVE_PROJECT :: document where
  "part0_MOVE_PROJECT = \<lparr>
     operation = ''mutation'',
     opName = ''moveProject'',
     variableDefinitions =
       [(''fromProjectId'', NamedType ''ID''), (''toProjectId'', NamedType ''ID'')],
     selectionSet =
       [Field ''moveProject''
          [(''fromProjectId'', ''fromProjectId''), (''toProjectId'', ''toProjectId'')]
          [Field ''project'' [] [Field ''id'' [] [], Field ''name'' [] []]]] \<rparr>"

definition part0_UPDATE_PROJECT :: document where
  "part0_UPDATE_PROJECT = \<lparr>
     operation = ''mutation'',
     opName = ''updateProject'',
     variableDefinitions =
       [(''data'', NamedType ''ProjectInputType''), (''id'', NamedType ''ID'')],
     selectionSet =
       [Field ''updateProject'' [(''data'', ''data''), (''id'', ''id'')]
          [Field ''project'' [] [Field ''id'' [] [], Field ''name'' [] []]]] \<rparr>"

definition part0_addProject ::
  "('w, 'p) client \<Rightarrow> jsval \<Rightarrow> 'w \<Rightarrow> (error + 'p) \<times> 'w" where
  "part0_addProject apollo data w =
     (case get_prop data ''ecosystemId'' of Inl e \<Rightarrow> (Inl e, w) | Inr ecosystemId \<Rightarrow>
      (case get_prop data ''name'' of Inl e \<Rightarrow> (Inl e, w) | Inr name \<Rightarrow>
       (case get_prop data ''title'' of Inl e \<Rightarrow> (Inl e, w) | Inr title \<Rightarrow>
        (case get_prop data ''parentId'' of Inl e \<Rightarrow> (Inl e, w) | Inr parentId \<Rightarrow>
           apollo \<lparr> mutation = part0_ADD_PROJECT,
                    variables = [(''ecosystemId'', ecosystemId), (''name'', name),
                                 (''title'', title), (''parentId'', parentId)] \<rparr> w))))"

definition part0_deleteProject ::
  "('w, 'p) client \<Rightarrow> jsval \<Rightarrow> 'w \<Rightarrow> (error + 'p) \<times> 'w" where
  "part0_deleteProject apollo ident w =
     apollo \<lparr> mutation = part0_DELETE_PROJECT, variables = [(''id'', ident)] \<rparr> w"

definition part0_moveProject ::
  "('w, 'p) client \<Rightarrow> jsval \<Rightarrow> jsval \<Rightarrow> 'w \<Rightarrow> (error + 'p) \<times> 'w" where
  "part0_moveProject apollo fromProjectId toProjectId w =
     apollo \<lparr> mutation = part0_MOVE_PROJECT,
              variables = [(''fromProjectId'', fromProjectId),
                           (''toProjectId'', toProjectId)] \<rparr> w"

definition part0_updateProject ::
  "('w, 'p) client \<Rightarrow> jsval \<Rightarrow> jsval \<Rightarrow> 'w \<Rightarrow> (error + 'p) \<times> 'w" where
  "part0_updateProject apollo data ident w =
     apollo \<lparr> mutation = part0_UPDATE_PROJECT,
              variables = [(''data'', data), (''id'', ident)] \<rparr> w"

subsection \<open>Observing the calls of a wrapper\<close>

text \<open>
  A client that behaves as \<open>apollo\<close> does and also appends every request it is handed
  to a log kept beside the world. What a wrapper run on it leaves in the log are the
  calls of \<^verbatim>\<open>mutate\<close> the wrapper made, in order.
\<close>

definition logged :: "('w, 'p) client \<Rightarrow> ('w \<times> request list, 'p) client" where
  "logged apollo req s =
     (case apollo req (fst s) of (r, w') \<Rightarrow> (r, (w', snd s @ [req])))"

definition calls :: "(error + 'p) \<times> 'w \<times> request list \<Rightarrow> request list" where
  "calls out = snd (snd out)"

text \<open>
  Two clients to run the wrappers on. The world is the number of requests served so
  far. The first returns the variables it was sent; the second throws on every request.
\<close>

definition echo_client :: "(nat, (string \<times> jsval) list) client" where
  "echo_client req n = (Inr (variables req), Suc n)"

definition failing_client :: "(nat, (string \<times> jsval) list) client" where
  "failing_client req n = (Inl (Thrown (Str ''Network error'')), Suc n)"

subsection \<open>The project store behind \<^verbatim>\<open>moveProject\<close>\<close>

text \<open>
  Modelled from the spec: the project of the backend's relational store, which is not
  among the sources. The specification's data model gives a project the fields id, name,
  title, parentId (nullable, null for a root of the ecosystem) and ecosystemId.
\<close>

record project =
  project_id :: nat
  project_name :: string
  project_title :: string
  project_parentId :: "nat option"
  project_ecosystemId :: nat

text \<open>
  Modelled from the spec: the backend resolver of the \<^verbatim>\<open>moveProject\<close> mutation, which is
  not among the sources (they hold its caller only). The specification says that
  \<^verbatim>\<open>moveProject\<close> re-parents a subtree by id: the project with the id
  \<open>fromProjectId\<close> gets \<open>toProjectId\<close> as its parent, and its subtree follows because
  the children keep pointing at it. The checks the backend makes before it does so are
  not described and not modelled.
\<close>

definition move_project :: "project list \<Rightarrow> nat \<Rightarrow> nat option \<Rightarrow> project list" where
  "move_project ps fromProjectId toProjectId =
     map (\<lambda>p. if project_id p = fromProjectId
              then p\<lparr> project_parentId := toProjectId \<rparr> else p) ps"

section \<open>Basic facts\<close>

lemma get_prop_readable: "\<not> nullish v \<Longrightarrow> get_prop v k = Inr (member_of v k)"
  by (simp add: get_prop_def)

lemma get_prop_nullish: "nullish v \<Longrightarrow> get_prop v k = Inl TypeError"
  by (simp add: get_prop_def)

lemma addProject_readable:
  "\<not> nullish data \<Longrightarrow>
   addProject apollo data w =
     apollo \<lparr> mutation = ADD_PROJECT,
              variables = [(''ecosystemId'', member_of data ''ecosystemId''),
                           (''name'', member_of data ''name''),
                           (''title'', member_of data ''title''),
                           (''parentId'', member_of data ''parentId'')] \<rparr> w"
  by (simp add: addProject_def get_prop_readable)

lemma addProject_nullish: "nullish data \<Longrightarrow> addProject apollo data w = (Inl TypeError, w)"
  by (simp add: addProject_def get_prop_nullish)

lemma addEcosystem_readable:
  "\<not> nullish data \<Longrightarrow>
   addEcosystem apollo data w =
     apollo \<lparr> mutation = ADD_ECOSYSTEM,
              variables = [(''name'', member_of data ''name''),
                           (''title'', member_of data ''title''),
                           (''description'', member_of data ''description'')] \<rparr> w"
  by (simp add: addEcosystem_def get_prop_readable)

lemma addEcosystem_nullish:
  "nullish data \<Longrightarrow> addEcosystem apollo data w = (Inl TypeError, w)"
  by (simp add: addEcosystem_def get_prop_nullish)

lemma calls_logged: "calls (logged apollo req (w, l)) = l @ [req]"
  by (simp add: calls_def logged_def split: prod.split)

lemma fst_logged: "fst (logged apollo req (w, l)) = fst (apollo req w)"
  by (simp add: logged_def split: prod.split)

lemma snd_logged: "snd (logged apollo req (w, l)) = (snd (apollo req w), l @ [req])"
  by (simp add: logged_def split: prod.split)

lemma calls_raised: "calls (Inl e, (w, l)) = l"
  by (simp add: calls_def)

lemmas document_defs =
  ADD_PROJECT_def DELETE_PROJECT_def MOVE_PROJECT_def UPDATE_PROJECT_def
  ADD_ECOSYSTEM_def UPDATE_ECOSYSTEM_def DELETE_ECOSYSTEM_def TOKEN_AUTH_def

lemmas simple_wrapper_defs =
  deleteProject_def moveProject_def updateProject_def
  updateEcosystem_def deleteEcosystem_def tokenAuth_def

section \<open>The documents against the interface list\<close>

text \<open>
  C5. The documents mark a variable as required exactly where the interface list writes
  an exclamation mark: the eight documents, read as signatures, are the interface list.
  In particular \<^verbatim>\<open>addEcosystem\<close> declares \<^verbatim>\<open>name\<close> as \<^verbatim>\<open>String!\<close>, \<^verbatim>\<open>title\<close> and
  \<^verbatim>\<open>description\<close> as plain \<^verbatim>\<open>String\<close> and selects \<^verbatim>\<open>ecosystem { id }\<close> only,
  \<^verbatim>\<open>deleteEcosystem\<close> declares \<^verbatim>\<open>id\<close> as \<^verbatim>\<open>ID!\<close>, and no variable of the four project
  documents is required, the \<^verbatim>\<open>id\<close> of \<^verbatim>\<open>deleteProject\<close> included.
\<close>

theorem documents_match_interface:
  "map signature_of
     [ADD_PROJECT, DELETE_PROJECT, MOVE_PROJECT, UPDATE_PROJECT,
      ADD_ECOSYSTEM, UPDATE_ECOSYSTEM, DELETE_ECOSYSTEM, TOKEN_AUTH] = spec_interface
   \<and> variableDefinitions ADD_ECOSYSTEM =
       [(''name'', NonNullType (NamedType ''String'')),
        (''title'', NamedType ''String''),
        (''description'', NamedType ''String'')]
   \<and> required_variables ADD_ECOSYSTEM = [''name'']
   \<and> concat (map subselection (selectionSet ADD_ECOSYSTEM)) =
       [Field ''ecosystem'' [] [Field ''id'' [] []]]
   \<and> variableDefinitions DELETE_ECOSYSTEM = [(''id'', NonNullType (NamedType ''ID''))]
   \<and> required_variables DELETE_ECOSYSTEM = [''id'']
   \<and> required_variables ADD_PROJECT = []
   \<and> variableDefinitions DELETE_PROJECT = [(''id'', NamedType ''ID'')]
   \<and> required_variables DELETE_PROJECT = []
   \<and> required_variables MOVE_PROJECT = []
   \<and> required_variables UPDATE_PROJECT = []"
  by (simp add: signature_of_def spec_interface_def required_variables_def
      ADD_PROJECT_def DELETE_PROJECT_def MOVE_PROJECT_def UPDATE_PROJECT_def
      ADD_ECOSYSTEM_def UPDATE_ECOSYSTEM_def DELETE_ECOSYSTEM_def TOKEN_AUTH_def)

section \<open>What the wrappers send\<close>

text \<open>
  C1, as stated, fails where \<^verbatim>\<open>data\<close> is \<^verbatim>\<open>undefined\<close>: \<^verbatim>\<open>addProject\<close> raises
  while it builds the variables and never reaches \<^verbatim>\<open>mutate\<close>.
\<close>

theorem addProject_undefined_sends_nothing:
  "calls (addProject (logged echo_client) Undefined (0, [])) = []"
  by (simp add: addProject_nullish calls_raised)

text \<open>
  C1 (amended). For every input whose \<^verbatim>\<open>data\<close> argument, where the wrapper reads its
  properties, is neither \<^verbatim>\<open>null\<close> nor \<^verbatim>\<open>undefined\<close>, each of the eight wrappers calls
  \<^verbatim>\<open>mutate\<close> with exactly the document of its name and exactly the documented variables,
  the values taken from the arguments (for \<^verbatim>\<open>addProject\<close> and \<^verbatim>\<open>addEcosystem\<close> from
  the properties of \<^verbatim>\<open>data\<close> of the same names). The documents carry the documented
  names and declare the same variables; \<^verbatim>\<open>addProject\<close> selects
  \<^verbatim>\<open>project { id name }\<close> and \<^verbatim>\<open>tokenAuth\<close> selects \<^verbatim>\<open>token\<close>.
\<close>

theorem wrappers_send_documented_request:
  "(\<not> nullish data \<longrightarrow>
      calls (addProject (logged apollo) data (w, [])) =
        [\<lparr> mutation = ADD_PROJECT,
             variables = [(''ecosystemId'', member_of data ''ecosystemId''),
                          (''name'', member_of data ''name''),
                          (''title'', member_of data ''title''),
                          (''parentId'', member_of data ''parentId'')] \<rparr>])
   \<and> calls (deleteProject (logged apollo) ident (w, [])) =
        [\<lparr> mutation = DELETE_PROJECT, variables = [(''id'', ident)] \<rparr>]
   \<and> calls (moveProject (logged apollo) fromProjectId toProjectId (w, [])) =
        [\<lparr> mutation = MOVE_PROJECT,
             variables = [(''fromProjectId'', fromProjectId),
                          (''toProjectId'', toProjectId)] \<rparr>]
   \<and> calls (updateProject (logged apollo) data ident (w, [])) =
        [\<lparr> mutation = UPDATE_PROJECT, variables = [(''data'', data), (''id'', ident)] \<rparr>]
   \<and> (\<not> nullish data \<longrightarrow>
      calls (addEcosystem (logged apollo) data (w, [])) =
        [\<lparr> mutation = ADD_ECOSYSTEM,
             variables = [(''name'', member_of data ''name''),
                          (''title'', member_of data ''title''),
                          (''description'', member_of data ''description'')] \<rparr>])
   \<and> calls (updateEcosystem (logged apollo) data ident (w, [])) =
        [\<lparr> mutation = UPDATE_ECOSYSTEM, variables = [(''data'', data), (''id'', ident)] \<rparr>]
   \<and> calls (deleteEcosystem (logged apollo) ident (w, [])) =
        [\<lparr> mutation = DELETE_ECOSYSTEM, variables = [(''id'', ident)] \<rparr>]
   \<and> calls (tokenAuth (logged apollo) username password (w, [])) =
        [\<lparr> mutation = TOKEN_AUTH,
             variables = [(''username'', username), (''password'', password)] \<rparr>]
   \<and> map opName
         [ADD_PROJECT, DELETE_PROJECT, MOVE_PROJECT, UPDATE_PROJECT,
          ADD_ECOSYSTEM, UPDATE_ECOSYSTEM, DELETE_ECOSYSTEM, TOKEN_AUTH] =
       [''addProject'', ''deleteProject'', ''moveProject'', ''updateProject'',
        ''addEcosystem'', ''updateEcosystem'', ''deleteEcosystem'', ''tokenAuth'']
   \<and> map (\<lambda>d. map field_name (selectionSet d))
         [ADD_PROJECT, DELETE_PROJECT, MOVE_PROJECT, UPDATE_PROJECT,
          ADD_ECOSYSTEM, UPDATE_ECOSYSTEM, DELETE_ECOSYSTEM, TOKEN_AUTH] =
       [[''addProject''], [''deleteProject''], [''moveProject''], [''updateProject''],
        [''addEcosystem''], [''updateEcosystem''], [''deleteEcosystem''], [''tokenAuth'']]
   \<and> map (\<lambda>d. map fst (variableDefinitions d))
         [ADD_PROJECT, DELETE_PROJECT, MOVE_PROJECT, UPDATE_PROJECT,
          ADD_ECOSYSTEM, UPDATE_ECOSYSTEM, DELETE_ECOSYSTEM, TOKEN_AUTH] =
       [[''ecosystemId'', ''name'', ''title'', ''parentId''], [''id''],
        [''fromProjectId'', ''toProjectId''], [''data'', ''id''],
        [''name'', ''title'', ''description''], [''data'', ''id''], [''id''],
        [''username'', ''password'']]
   \<and> concat (map subselection (selectionSet ADD_PROJECT)) =
       [Field ''project'' [] [Field ''id'' [] [], Field ''name'' [] []]]
   \<and> concat (map subselection (selectionSet TOKEN_AUTH)) = [Field ''token'' [] []]"
proof -
  have names:
    "map opName
       [ADD_PROJECT, DELETE_PROJECT, MOVE_PROJECT, UPDATE_PROJECT,
        ADD_ECOSYSTEM, UPDATE_ECOSYSTEM, DELETE_ECOSYSTEM, TOKEN_AUTH] =
     [''addProject'', ''deleteProject'', ''moveProject'', ''updateProject'',
      ''addEcosystem'', ''updateEcosystem'', ''deleteEcosystem'', ''tokenAuth'']"
    by (simp add: document_defs)
  have roots:
    "map (\<lambda>d. map field_name (selectionSet d))
       [ADD_PROJECT, DELETE_PROJECT, MOVE_PROJECT, UPDATE_PROJECT,
        ADD_ECOSYSTEM, UPDATE_ECOSYSTEM, DELETE_ECOSYSTEM, TOKEN_AUTH] =
     [[''addProject''], [''deleteProject''], [''moveProject''], [''updateProject''],
      [''addEcosystem''], [''updateEcosystem''], [''deleteEcosystem''], [''tokenAuth'']]"
    by (simp add: document_defs)
  have vars:
    "map (\<lambda>d. map fst (variableDefinitions d))
       [ADD_PROJECT, DELETE_PROJECT, MOVE_PROJECT, UPDATE_PROJECT,
        ADD_ECOSYSTEM, UPDATE_ECOSYSTEM, DELETE_ECOSYSTEM, TOKEN_AUTH] =
     [[''ecosystemId'', ''name'', ''title'', ''parentId''], [''id''],
      [''fromProjectId'', ''toProjectId''], [''data'', ''id''],
      [''name'', ''title'', ''description''], [''data'', ''id''], [''id''],
      [''username'', ''password'']]"
    by (simp add: document_defs)
  have sel:
    "concat (map subselection (selectionSet ADD_PROJECT)) =
       [Field ''project'' [] [Field ''id'' [] [], Field ''name'' [] []]]"
    "concat (map subselection (selectionSet TOKEN_AUTH)) = [Field ''token'' [] []]"
    by (simp_all add: document_defs)
  show ?thesis
    unfolding names roots vars sel
    by (simp add: addProject_readable addEcosystem_readable simple_wrapper_defs calls_logged)
qed

theorem wrappers_send_documented_request_witness:
  "\<not> nullish (Obj [(''ecosystemId'', Num 1), (''name'', Str ''grimoirelab''),
                    (''title'', Str ''GrimoireLab'')])
   \<and> calls (addProject (logged echo_client)
        (Obj [(''ecosystemId'', Num 1), (''name'', Str ''grimoirelab''),
              (''title'', Str ''GrimoireLab'')]) (0, [])) =
       [\<lparr> mutation = ADD_PROJECT,
           variables = [(''ecosystemId'', Num 1), (''name'', Str ''grimoirelab''),
                        (''title'', Str ''GrimoireLab''), (''parentId'', Undefined)] \<rparr>]
   \<and> calls (tokenAuth (logged echo_client) (Str ''admin'') (Str ''secret'') (0, [])) =
       [\<lparr> mutation = TOKEN_AUTH,
           variables = [(''username'', Str ''admin''), (''password'', Str ''secret'')] \<rparr>]
   \<and> opName ADD_PROJECT = ''addProject'' \<and> opName TOKEN_AUTH = ''tokenAuth''"
  using wrappers_send_documented_request
    [where data = "Obj [(''ecosystemId'', Num 1), (''name'', Str ''grimoirelab''),
                        (''title'', Str ''GrimoireLab'')]"
       and apollo = echo_client and w = "0::nat"
       and username = "Str ''admin''" and password = "Str ''secret''"]
  by simp

section \<open>What the wrappers return\<close>

text \<open>
  C2, as stated, fails where \<^verbatim>\<open>data\<close> is \<^verbatim>\<open>null\<close>: \<^verbatim>\<open>addEcosystem\<close> raises a
  \<^verbatim>\<open>TypeError\<close> of its own and leaves the world as it was, where the client would have
  returned a value and served a request.
\<close>

theorem addEcosystem_null_returns_no_mutate_result:
  "addEcosystem echo_client Null 0 = (Inl TypeError, 0)"
  by (simp add: addEcosystem_nullish)

text \<open>
  C2 (amended). For every client and every input whose \<^verbatim>\<open>data\<close> argument, where the
  wrapper reads its properties, is neither \<^verbatim>\<open>null\<close> nor \<^verbatim>\<open>undefined\<close>, each wrapper
  gives back exactly what its one call of \<^verbatim>\<open>mutate\<close> gives: the same returned value or
  the same thrown error, with no transformation, retry or translation.
\<close>

theorem wrappers_return_mutate_result:
  "(\<not> nullish data \<longrightarrow>
      addProject apollo data w =
        apollo \<lparr> mutation = ADD_PROJECT,
             variables = [(''ecosystemId'', member_of data ''ecosystemId''),
                          (''name'', member_of data ''name''),
                          (''title'', member_of data ''title''),
                          (''parentId'', member_of data ''parentId'')] \<rparr> w)
   \<and> deleteProject apollo ident w =
        apollo \<lparr> mutation = DELETE_PROJECT, variables = [(''id'', ident)] \<rparr> w
   \<and> moveProject apollo fromProjectId toProjectId w =
        apollo \<lparr> mutation = MOVE_PROJECT,
             variables = [(''fromProjectId'', fromProjectId),
                          (''toProjectId'', toProjectId)] \<rparr> w
   \<and> updateProject apollo data ident w =
        apollo \<lparr> mutation = UPDATE_PROJECT, variables = [(''data'', data), (''id'', ident)] \<rparr> w
   \<and> (\<not> nullish data \<longrightarrow>
      addEcosystem apollo data w =
        apollo \<lparr> mutation = ADD_ECOSYSTEM,
             variables = [(''name'', member_of data ''name''),
                          (''title'', member_of data ''title''),
                          (''description'', member_of data ''description'')] \<rparr> w)
   \<and> updateEcosystem apollo data ident w =
        apollo \<lparr> mutation = UPDATE_ECOSYSTEM, variables = [(''data'', data), (''id'', ident)] \<rparr> w
   \<and> deleteEcosystem apollo ident w =
        apollo \<lparr> mutation = DELETE_ECOSYSTEM, variables = [(''id'', ident)] \<rparr> w
   \<and> tokenAuth apollo username password w =
        apollo \<lparr> mutation = TOKEN_AUTH,
             variables = [(''username'', username), (''password'', password)] \<rparr> w"
  by (simp add: addProject_readable addEcosystem_readable simple_wrapper_defs)

theorem wrappers_return_mutate_result_witness:
  "\<not> nullish (Obj [(''name'', Str ''oss'')])
   \<and> fst (addEcosystem failing_client (Obj [(''name'', Str ''oss'')]) 0) =
       Inl (Thrown (Str ''Network error''))
   \<and> fst (addEcosystem echo_client (Obj [(''name'', Str ''oss'')]) 0) =
       Inr [(''name'', Str ''oss''), (''title'', Undefined), (''description'', Undefined)]
   \<and> fst (tokenAuth failing_client (Str ''admin'') (Str ''wrong'') 0) =
       Inl (Thrown (Str ''Network error''))"
  using wrappers_return_mutate_result
    [where data = "Obj [(''name'', Str ''oss'')]" and apollo = failing_client
       and w = "0::nat" and username = "Str ''admin''" and password = "Str ''wrong''"]
    wrappers_return_mutate_result
    [where data = "Obj [(''name'', Str ''oss'')]" and apollo = echo_client and w = "0::nat"]
  by (simp add: failing_client_def echo_client_def)

section \<open>No validation on the client side\<close>

text \<open>
  C6, as stated, fails where \<^verbatim>\<open>data\<close> is \<^verbatim>\<open>null\<close>: \<^verbatim>\<open>addProject\<close> raises a
  \<^verbatim>\<open>TypeError\<close> itself and performs no call.
\<close>

theorem addProject_null_raises:
  "fst (addProject (logged echo_client) Null (0, [])) = Inl TypeError
   \<and> calls (addProject (logged echo_client) Null (0, [])) = []"
  by (simp add: addProject_nullish calls_raised)

text \<open>
  C6 (amended). No wrapper validates its inputs: for every input whose \<^verbatim>\<open>data\<close>
  argument, where the wrapper reads its properties, is neither \<^verbatim>\<open>null\<close> nor
  \<^verbatim>\<open>undefined\<close> (its properties may be absent, \<^verbatim>\<open>null\<close> or of any shape, and so may
  \<^verbatim>\<open>id\<close>, \<^verbatim>\<open>username\<close> and \<^verbatim>\<open>password\<close>), each wrapper performs the call, and its
  outcome, an error included, is the outcome of that call. An object without properties,
  a \<^verbatim>\<open>null\<close> name, an \<^verbatim>\<open>undefined\<close> id and credentials that are not strings are sent
  as they are.
\<close>

theorem wrappers_do_not_validate:
  "(\<not> nullish data \<longrightarrow>
      (\<exists>req. calls (addProject (logged apollo) data (w, [])) = [req]
          \<and> fst (addProject (logged apollo) data (w, [])) = fst (apollo req w)))
   \<and> (\<exists>req. calls (deleteProject (logged apollo) ident (w, [])) = [req]
          \<and> fst (deleteProject (logged apollo) ident (w, [])) = fst (apollo req w))
   \<and> (\<exists>req. calls (moveProject (logged apollo) fromProjectId toProjectId (w, [])) = [req]
          \<and> fst (moveProject (logged apollo) fromProjectId toProjectId (w, [])) = fst (apollo req w))
   \<and> (\<exists>req. calls (updateProject (logged apollo) data ident (w, [])) = [req]
          \<and> fst (updateProject (logged apollo) data ident (w, [])) = fst (apollo req w))
   \<and> (\<not> nullish data \<longrightarrow>
      (\<exists>req. calls (addEcosystem (logged apollo) data (w, [])) = [req]
          \<and> fst (addEcosystem (logged apollo) data (w, [])) = fst (apollo req w)))
   \<and> (\<exists>req. calls (updateEcosystem (logged apollo) data ident (w, [])) = [req]
          \<and> fst (updateEcosystem (logged apollo) data ident (w, [])) = fst (apollo req w))
   \<and> (\<exists>req. calls (deleteEcosystem (logged apollo) ident (w, [])) = [req]
          \<and> fst (deleteEcosystem (logged apollo) ident (w, [])) = fst (apollo req w))
   \<and> (\<exists>req. calls (tokenAuth (logged apollo) username password (w, [])) = [req]
          \<and> fst (tokenAuth (logged apollo) username password (w, [])) = fst (apollo req w))
   \<and> calls (addProject (logged apollo) (Obj [(''name'', Null)]) (w, [])) =
       [\<lparr> mutation = ADD_PROJECT,
           variables = [(''ecosystemId'', Undefined), (''name'', Null),
                        (''title'', Undefined), (''parentId'', Undefined)] \<rparr>]
   \<and> calls (addEcosystem (logged apollo) (Obj []) (w, [])) =
       [\<lparr> mutation = ADD_ECOSYSTEM,
           variables = [(''name'', Undefined), (''title'', Undefined),
                        (''description'', Undefined)] \<rparr>]
   \<and> calls (deleteEcosystem (logged apollo) Undefined (w, [])) =
       [\<lparr> mutation = DELETE_ECOSYSTEM, variables = [(''id'', Undefined)] \<rparr>]
   \<and> calls (tokenAuth (logged apollo) Null (Num 7) (w, [])) =
       [\<lparr> mutation = TOKEN_AUTH,
           variables = [(''username'', Null), (''password'', Num 7)] \<rparr>]"
  by (simp add: addProject_readable addEcosystem_readable simple_wrapper_defs
      calls_logged fst_logged)

theorem wrappers_do_not_validate_witness:
  "\<not> nullish (Num 5)
   \<and> (\<exists>req. calls (addProject (logged failing_client) (Num 5) (0, [])) = [req]
          \<and> fst (addProject (logged failing_client) (Num 5) (0, [])) =
              fst (failing_client req 0))
   \<and> (\<exists>req. calls (deleteProject (logged echo_client) Null (0, [])) = [req]
          \<and> fst (deleteProject (logged echo_client) Null (0, [])) =
              fst (echo_client req 0))"
  using wrappers_do_not_validate
    [where data = "Num 5" and apollo = failing_client and w = "0::nat"]
    wrappers_do_not_validate
    [where ident = Null and apollo = echo_client and w = "0::nat"]
  by simp

section \<open>One call and nothing else\<close>

text \<open>
  C7, as stated, fails where \<^verbatim>\<open>data\<close> is \<^verbatim>\<open>undefined\<close>: \<^verbatim>\<open>addEcosystem\<close> makes no
  call at all.
\<close>

theorem addEcosystem_undefined_makes_no_call:
  "length (calls (addEcosystem (logged echo_client) Undefined (0, []))) \<noteq> 1"
  by (simp add: addEcosystem_nullish calls_raised)

text \<open>
  C7 (amended). For every input whose \<^verbatim>\<open>data\<close> argument, where the wrapper reads its
  properties, is neither \<^verbatim>\<open>null\<close> nor \<^verbatim>\<open>undefined\<close>, each wrapper makes exactly one
  call of \<^verbatim>\<open>mutate\<close> and does nothing else: the log of calls grows by one request, and
  the world the wrapper leaves is the world that one call leaves when started in the
  world the wrapper was started in.
\<close>

theorem wrappers_single_call:
  "(\<not> nullish data \<longrightarrow>
      (\<exists>req. snd (addProject (logged apollo) data (w, l)) = (snd (apollo req w), l @ [req])))
   \<and> (\<exists>req. snd (deleteProject (logged apollo) ident (w, l)) = (snd (apollo req w), l @ [req]))
   \<and> (\<exists>req. snd (moveProject (logged apollo) fromProjectId toProjectId (w, l)) = (snd (apollo req w), l @ [req]))
   \<and> (\<exists>req. snd (updateProject (logged apollo) data ident (w, l)) = (snd (apollo req w), l @ [req]))
   \<and> (\<not> nullish data \<longrightarrow>
      (\<exists>req. snd (addEcosystem (logged apollo) data (w, l)) = (snd (apollo req w), l @ [req])))
   \<and> (\<exists>req. snd (updateEcosystem (logged apollo) data ident (w, l)) = (snd (apollo req w), l @ [req]))
   \<and> (\<exists>req. snd (deleteEcosystem (logged apollo) ident (w, l)) = (snd (apollo req w), l @ [req]))
   \<and> (\<exists>req. snd (tokenAuth (logged apollo) username password (w, l)) = (snd (apollo req w), l @ [req]))"
  by (simp add: addProject_readable addEcosystem_readable simple_wrapper_defs snd_logged)

theorem wrappers_single_call_witness:
  "\<not> nullish (Obj [(''name'', Str ''oss''), (''title'', Str ''OSS'')])
   \<and> snd (addEcosystem (logged echo_client)
        (Obj [(''name'', Str ''oss''), (''title'', Str ''OSS'')]) (0, [])) =
       (1, [\<lparr> mutation = ADD_ECOSYSTEM,
               variables = [(''name'', Str ''oss''), (''title'', Str ''OSS''),
                            (''description'', Undefined)] \<rparr>])
   \<and> (\<exists>req. snd (moveProject (logged echo_client) (Num 3) (Num 4) (0, [])) =
          (snd (echo_client req 0), [] @ [req]))"
  using wrappers_single_call
    [where data = "Obj [(''name'', Str ''oss''), (''title'', Str ''OSS'')]"
       and apollo = echo_client and w = "0::nat" and l = "[]"
       and fromProjectId = "Num 3" and toProjectId = "Num 4"]
  by (simp add: addEcosystem_readable snd_logged echo_client_def)

section \<open>The two modules agree\<close>

text \<open>
  C8. The four project wrappers of \<^verbatim>\<open>unnamed/part_000\<close> are extensionally equal to
  the wrappers of the same names in \<^verbatim>\<open>ui/src/apollo/mutations.js\<close>: they are the same
  functions of the client, the arguments and the world, built on equal documents.
\<close>

theorem part0_wrappers_equal:
  "part0_ADD_PROJECT = ADD_PROJECT
   \<and> part0_DELETE_PROJECT = DELETE_PROJECT
   \<and> part0_MOVE_PROJECT = MOVE_PROJECT
   \<and> part0_UPDATE_PROJECT = UPDATE_PROJECT
   \<and> (part0_addProject :: ('w, 'p) client \<Rightarrow> _) = addProject
   \<and> (part0_deleteProject :: ('w, 'p) client \<Rightarrow> _) = deleteProject
   \<and> (part0_moveProject :: ('w, 'p) client \<Rightarrow> _) = moveProject
   \<and> (part0_updateProject :: ('w, 'p) client \<Rightarrow> _) = updateProject"
proof -
  have docs:
    "part0_ADD_PROJECT = ADD_PROJECT" "part0_DELETE_PROJECT = DELETE_PROJECT"
    "part0_MOVE_PROJECT = MOVE_PROJECT" "part0_UPDATE_PROJECT = UPDATE_PROJECT"
    by (simp_all add: part0_ADD_PROJECT_def part0_DELETE_PROJECT_def
        part0_MOVE_PROJECT_def part0_UPDATE_PROJECT_def
        ADD_PROJECT_def DELETE_PROJECT_def MOVE_PROJECT_def UPDATE_PROJECT_def)
  have "part0_addProject apollo data w = addProject apollo data w"
    for apollo :: "('w, 'p) client" and data w
    unfolding part0_addProject_def addProject_def docs by (rule refl)
  moreover have "part0_deleteProject apollo ident w = deleteProject apollo ident w"
    for apollo :: "('w, 'p) client" and ident w
    by (simp add: part0_deleteProject_def deleteProject_def docs)
  moreover have "part0_moveProject apollo a b w = moveProject apollo a b w"
    for apollo :: "('w, 'p) client" and a b w
    by (simp add: part0_moveProject_def moveProject_def docs)
  moreover have "part0_updateProject apollo data ident w = updateProject apollo data ident w"
    for apollo :: "('w, 'p) client" and data ident w
    by (simp add: part0_updateProject_def updateProject_def docs)
  ultimately show ?thesis
    using docs by (intro conjI ext) simp_all
qed

section \<open>Only the named properties are read\<close>

text \<open>
  C9. \<^verbatim>\<open>addProject\<close> reads the properties \<^verbatim>\<open>ecosystemId\<close>, \<^verbatim>\<open>name\<close>, \<^verbatim>\<open>title\<close> and
  \<^verbatim>\<open>parentId\<close> of \<^verbatim>\<open>data\<close> and nothing else, and \<^verbatim>\<open>addEcosystem\<close> reads \<^verbatim>\<open>name\<close>,
  \<^verbatim>\<open>title\<close> and \<^verbatim>\<open>description\<close>: two arguments on which these reads agree give the
  same run, a further property on \<^verbatim>\<open>data\<close> changes nothing, and the variables of every
  request sent carry exactly these names.
\<close>

theorem wrappers_read_named_properties_only:
  "(get_prop d ''ecosystemId'' = get_prop d' ''ecosystemId''
      \<and> get_prop d ''name'' = get_prop d' ''name''
      \<and> get_prop d ''title'' = get_prop d' ''title''
      \<and> get_prop d ''parentId'' = get_prop d' ''parentId''
      \<longrightarrow> addProject apollo d w = addProject apollo d' w)
   \<and> (get_prop d ''name'' = get_prop d' ''name''
      \<and> get_prop d ''title'' = get_prop d' ''title''
      \<and> get_prop d ''description'' = get_prop d' ''description''
      \<longrightarrow> addEcosystem apollo d w = addEcosystem apollo d' w)
   \<and> (k \<noteq> ''ecosystemId'' \<and> k \<noteq> ''name'' \<and> k \<noteq> ''title'' \<and> k \<noteq> ''parentId''
      \<longrightarrow> addProject apollo (Obj ((k, v) # ps)) w = addProject apollo (Obj ps) w)
   \<and> (k \<noteq> ''name'' \<and> k \<noteq> ''title'' \<and> k \<noteq> ''description''
      \<longrightarrow> addEcosystem apollo (Obj ((k, v) # ps)) w = addEcosystem apollo (Obj ps) w)
   \<and> set (map (\<lambda>req. map fst (variables req))
         (calls (addProject (logged apollo) d (w, []))))
       \<subseteq> {[''ecosystemId'', ''name'', ''title'', ''parentId'']}
   \<and> set (map (\<lambda>req. map fst (variables req))
         (calls (addEcosystem (logged apollo) d (w, []))))
       \<subseteq> {[''name'', ''title'', ''description'']}"
proof -
  have keys_p:
    "set (map (\<lambda>req. map fst (variables req))
       (calls (addProject (logged apollo) d (w, []))))
     \<subseteq> {[''ecosystemId'', ''name'', ''title'', ''parentId'']}"
    by (cases "nullish d")
      (simp_all add: addProject_nullish addProject_readable calls_raised calls_logged)
  have keys_e:
    "set (map (\<lambda>req. map fst (variables req))
       (calls (addEcosystem (logged apollo) d (w, []))))
     \<subseteq> {[''name'', ''title'', ''description'']}"
    by (cases "nullish d")
      (simp_all add: addEcosystem_nullish addEcosystem_readable calls_raised calls_logged)
  show ?thesis
    using keys_p keys_e
    by (simp add: addProject_def addEcosystem_def get_prop_def)
qed

theorem wrappers_read_named_properties_only_witness:
  "get_prop (Obj [(''name'', Str ''oss''), (''owner'', Str ''root'')]) ''name'' =
     get_prop (Obj [(''name'', Str ''oss'')]) ''name''
   \<and> ''owner'' \<noteq> ''name''
   \<and> addProject echo_client (Obj [(''name'', Str ''oss''), (''owner'', Str ''root'')]) 0 =
       addProject echo_client (Obj [(''name'', Str ''oss'')]) 0
   \<and> addEcosystem echo_client (Obj [(''owner'', Str ''root''), (''name'', Str ''oss'')]) 0 =
       addEcosystem echo_client (Obj [(''name'', Str ''oss'')]) 0
   \<and> fst (addEcosystem echo_client (Obj [(''owner'', Str ''root''), (''name'', Str ''oss'')]) 0) =
       Inr [(''name'', Str ''oss''), (''title'', Undefined), (''description'', Undefined)]"
  using wrappers_read_named_properties_only
    [where d = "Obj [(''name'', Str ''oss''), (''owner'', Str ''root'')]"
       and d' = "Obj [(''name'', Str ''oss'')]" and apollo = echo_client and w = "0::nat"]
    wrappers_read_named_properties_only
    [where k = "''owner''" and v = "Str ''root''" and ps = "[(''name'', Str ''oss'')]"
       and apollo = echo_client and w = "0::nat"]
  by (simp add: get_prop_def addEcosystem_readable echo_client_def)

section \<open>What is sent depends on the arguments alone\<close>

text \<open>
  C10. What a wrapper hands to the client is a function of its arguments: run on any
  two clients, in any two worlds, with equal arguments, it hands over equal requests
  (equal documents and equal variables). \<^verbatim>\<open>tokenAuth\<close> sends the username and
  the password as they were given, whatever the client and the world.
\<close>

theorem wrappers_deterministic:
  "calls (addProject (logged apollo) data (w, [])) =
       calls (addProject (logged apollo') data (w', []))
   \<and> calls (deleteProject (logged apollo) ident (w, [])) =
       calls (deleteProject (logged apollo') ident (w', []))
   \<and> calls (moveProject (logged apollo) fromProjectId toProjectId (w, [])) =
       calls (moveProject (logged apollo') fromProjectId toProjectId (w', []))
   \<and> calls (updateProject (logged apollo) data ident (w, [])) =
       calls (updateProject (logged apollo') data ident (w', []))
   \<and> calls (addEcosystem (logged apollo) data (w, [])) =
       calls (addEcosystem (logged apollo') data (w', []))
   \<and> calls (updateEcosystem (logged apollo) data ident (w, [])) =
       calls (updateEcosystem (logged apollo') data ident (w', []))
   \<and> calls (deleteEcosystem (logged apollo) ident (w, [])) =
       calls (deleteEcosystem (logged apollo') ident (w', []))
   \<and> calls (tokenAuth (logged apollo) username password (w, [])) =
       calls (tokenAuth (logged apollo') username password (w', []))
   \<and> calls (tokenAuth (logged apollo) username password (w, [])) =
       [\<lparr> mutation = TOKEN_AUTH,
           variables = [(''username'', username), (''password'', password)] \<rparr>]"
proof -
  have p: "calls (addProject (logged apollo) data (w, [])) =
           calls (addProject (logged apollo') data (w', []))"
    by (cases "nullish data")
      (simp_all add: addProject_nullish addProject_readable calls_raised calls_logged)
  have e: "calls (addEcosystem (logged apollo) data (w, [])) =
           calls (addEcosystem (logged apollo') data (w', []))"
    by (cases "nullish data")
      (simp_all add: addEcosystem_nullish addEcosystem_readable calls_raised calls_logged)
  show ?thesis
    using p e by (simp add: simple_wrapper_defs calls_logged)
qed

theorem wrappers_deterministic_witness:
  "calls (tokenAuth (logged echo_client) (Str ''admin'') (Str ''secret'') (0, [])) =
     calls (tokenAuth (logged failing_client) (Str ''admin'') (Str ''secret'') (41, []))
   \<and> calls (addProject (logged echo_client) Null (0, [])) =
       calls (addProject (logged failing_client) Null (41, []))
   \<and> calls (tokenAuth (logged failing_client) (Str ''admin'') (Str ''secret'') (41, [])) =
       [\<lparr> mutation = TOKEN_AUTH,
           variables = [(''username'', Str ''admin''), (''password'', Str ''secret'')] \<rparr>]"
  using wrappers_deterministic
    [where apollo = echo_client and apollo' = failing_client and w = "0::nat"
       and w' = "41::nat" and username = "Str ''admin''" and password = "Str ''secret''"
       and data = Null]
    wrappers_deterministic
    [where apollo = failing_client and apollo' = failing_client and w = "41::nat"
       and w' = "41::nat" and username = "Str ''admin''" and password = "Str ''secret''"]
  by simp

section \<open>Moving a project in the store\<close>

text \<open>
  C4. \<^verbatim>\<open>moveProject(from, to)\<close> alters nothing but the parent of the moved project:
  the store keeps its projects in place with their ids, names, titles and ecosystems,
  and every project other than the moved one is left as it was.
\<close>

theorem move_project_frame:
  "length (move_project ps fromProjectId toProjectId) = length ps
   \<and> map project_id (move_project ps fromProjectId toProjectId) = map project_id ps
   \<and> map project_name (move_project ps fromProjectId toProjectId) = map project_name ps
   \<and> map project_title (move_project ps fromProjectId toProjectId) = map project_title ps
   \<and> map project_ecosystemId (move_project ps fromProjectId toProjectId) =
       map project_ecosystemId ps
   \<and> filter (\<lambda>p. project_id p \<noteq> fromProjectId) (move_project ps fromProjectId toProjectId) =
       filter (\<lambda>p. project_id p \<noteq> fromProjectId) ps"
  by (induction ps) (simp_all add: move_project_def)

theorem move_project_frame_witness:
  "move_project
     [\<lparr> project_id = 1, project_name = ''grimoirelab'', project_title = ''GrimoireLab'',
         project_parentId = None, project_ecosystemId = 1 \<rparr>,
      \<lparr> project_id = 2, project_name = ''perceval'', project_title = ''Perceval'',
         project_parentId = None, project_ecosystemId = 1 \<rparr>] 2 (Some 1) =
     [\<lparr> project_id = 1, project_name = ''grimoirelab'', project_title = ''GrimoireLab'',
         project_parentId = None, project_ecosystemId = 1 \<rparr>,
      \<lparr> project_id = 2, project_name = ''perceval'', project_title = ''Perceval'',
         project_parentId = Some 1, project_ecosystemId = 1 \<rparr>]
   \<and> map project_name (move_project
        [\<lparr> project_id = 1, project_name = ''grimoirelab'', project_title = ''GrimoireLab'',
            project_parentId = None, project_ecosystemId = 1 \<rparr>,
         \<lparr> project_id = 2, project_name = ''perceval'', project_title = ''Perceval'',
            project_parentId = None, project_ecosystemId = 1 \<rparr>] 2 (Some 1)) =
       [''grimoirelab'', ''perceval'']"
  using move_project_frame
    [where ps = "[\<lparr> project_id = 1, project_name = ''grimoirelab'',
                    project_title = ''GrimoireLab'', project_parentId = None,
                    project_ecosystemId = 1 \<rparr>,
                  \<lparr> project_id = 2, project_name = ''perceval'',
                    project_title = ''Perceval'', project_parentId = None,
                    project_ecosystemId = 1 \<rparr>]"
       and fromProjectId = 2 and toProjectId = "Some 1"]
  by (simp add: move_project_def)

end
